theory Spec2Isabelle
  imports Complex_Main
begin

section \<open>The mock payment service\<close>

text \<open>
  A shallow embedding of the request handlers of the class \<open>MockPaymentService\<close>
  (\<open>processPayment\<close>, \<open>getPayment\<close>, \<open>refundPayment\<close>, \<open>resetTransactions\<close>) and of its
  \<open>DEFAULT_CONFIG\<close>. The module-level \<open>transactions\<close> map is passed explicitly: a handler
  takes the map and returns its reply together with the map it leaves behind.

  What the handlers read from their environment is a parameter of the model:
  each call of \<open>Math.random()\<close> is a draw \<open>r\<close>, \<open>uuidv4()\<close> is \<open>uuid\<close>, and
  \<open>new Date().toISOString()\<close> is \<open>now\<close>. The delay middleware only postpones a
  handler and is not part of the model. A request body is the value that
  \<open>bodyParser.json()\<close> leaves in \<open>req.body\<close>: an object or an array, or \<open>undefined\<close>
  for a request without a JSON body where the parser does not put an empty object in
  its place.
\<close>

subsection \<open>JavaScript values\<close>

text \<open>
  The values a parsed JSON body can hold, with \<open>undefined\<close> for a property that is
  absent. A number is the rational value of the double (JSON has no NaN and no
  infinities; \<open>0\<close> and \<open>-0\<close> are both \<open>JNum 0\<close>). A string is a list of 8-bit
  characters. An object lists its own properties, one entry for each key.
\<close>

datatype jsval =
    JUndefined
  | JNull
  | JBool bool
  | JNum rat
  | JStr string
  | JArr "jsval list"
  | JObj "(string \<times> jsval) list"

text \<open>The truth value that \<open>!v\<close>, \<open>a || b\<close> and \<open>a && b\<close> test.\<close>

fun truthy :: "jsval \<Rightarrow> bool" where
  "truthy JUndefined = False"
| "truthy JNull = False"
| "truthy (JBool b) = b"
| "truthy (JNum n) = (n \<noteq> 0)"
| "truthy (JStr s) = (s \<noteq> [])"
| "truthy (JArr xs) = True"
| "truthy (JObj kvs) = True"

text \<open>
  \<open>undefined\<close> and \<open>null\<close>: reading a property of either throws a TypeError, and so
  does destructuring it.
\<close>

fun nullish :: "jsval \<Rightarrow> bool" where
  "nullish JUndefined = True"
| "nullish JNull = True"
| "nullish v = False"

text \<open>\<open>a || b\<close>\<close>

definition js_or :: "jsval \<Rightarrow> jsval \<Rightarrow> jsval" where
  "js_or a b = (if truthy a then a else b)"

text \<open>
  The property read \<open>v?.k\<close>, for the keys the handlers read (none of them is a
  property of a string, an array or \<open>Object.prototype\<close>): the own property of an
  object, \<open>undefined\<close> for everything else. Where the source writes \<open>v.k\<close> the value
  \<open>v\<close> has been tested truthy first, or it is \<open>req.body\<close>: there the handlers below
  test \<open>nullish\<close> before they read, and take the throwing path.
\<close>

fun js_get :: "jsval \<Rightarrow> string \<Rightarrow> jsval" where
  "js_get (JObj kvs) k = (case map_of kvs k of Some v \<Rightarrow> v | None \<Rightarrow> JUndefined)"
| "js_get v k = JUndefined"

text \<open>
  The characters of the class \<open>\s\<close> among the 8-bit characters: tab, line feed,
  vertical tab, form feed, carriage return, space and the no-break space.
\<close>

definition is_space :: "char \<Rightarrow> bool" where
  "is_space c = (c \<in> set [CHR 0x09, CHR 0x0A, CHR 0x0B, CHR 0x0C, CHR 0x0D, CHR 0x20, CHR 0xA0])"

text \<open>\<open>s.replace(/\s+/g, '')\<close>\<close>

definition strip_whitespace :: "string \<Rightarrow> string" where
  "strip_whitespace s = filter (\<lambda>c. \<not> is_space c) s"

text \<open>\<open>xs.join(sep)\<close>\<close>

fun join :: "string \<Rightarrow> string list \<Rightarrow> string" where
  "join sep [] = []"
| "join sep [x] = x"
| "join sep (x # y # ys) = x @ sep @ join sep (y # ys)"

subsection \<open>Configuration\<close>

record test_cards =
  success :: string
  decline :: string
  error :: string
  cvvError :: string
  expiredCard :: string
  insufficientFunds :: string
  invalidCard :: string

record config =
  port :: nat
  delay_min :: nat
  delay_max :: nat
  errorRate :: rat
  declineRate :: rat
  availablePaymentMethods :: "string list"
  testCards :: test_cards

definition DEFAULT_CONFIG :: config where
  "DEFAULT_CONFIG = \<lparr>
     port = 3030,
     delay_min = 200,
     delay_max = 1000,
     errorRate = 5 / 100,
     declineRate = 1 / 10,
     availablePaymentMethods = [''credit_card'', ''paypal'', ''apple_pay'', ''google_pay''],
     testCards = \<lparr>
       success = ''4111111111111111'',
       decline = ''4000000000000002'',
       error = ''4000000000000069'',
       cvvError = ''4000000000000127'',
       expiredCard = ''4000000000000069'',
       insufficientFunds = ''4000000000009995'',
       invalidCard = ''1234567890123456'' \<rparr> \<rparr>"

subsection \<open>Transactions and replies\<close>

text \<open>
  A stored transaction. The three refund properties do not exist until the refund
  sets them: they are \<open>JUndefined\<close> before.
\<close>

record transaction =
  txn_id :: string
  paymentMethod :: jsval
  amount :: jsval
  currency :: jsval
  status :: string
  createdAt :: string
  metadata :: jsval
  billingInfo :: jsval
  refundedAt :: jsval
  refundAmount :: jsval
  refundReason :: jsval

type_synonym transactions = "string \<rightharpoonup> transaction"

text \<open>\<open>res.status(code).json(value)\<close>; \<open>res.json(value)\<close> alone answers 200.\<close>

record response =
  http_status :: nat
  json :: jsval

text \<open>The shape of every failure: \<open>{ success: false, error: { code, message } }\<close>.\<close>

definition error_response :: "nat \<Rightarrow> string \<Rightarrow> string \<Rightarrow> response" where
  "error_response st c m = \<lparr>
     http_status = st,
     json = JObj [(''success'', JBool False),
                  (''error'', JObj [(''code'', JStr c), (''message'', JStr m)])] \<rparr>"

text \<open>
  The error-handling middleware of \<open>setupServer\<close>: Express passes an exception thrown
  by a handler to it.
\<close>

definition server_error :: response where
  "server_error = error_response 500 ''server_error'' ''An unexpected error occurred''"

text \<open>What a client reads from a reply.\<close>

definition error_code :: "response \<Rightarrow> jsval" where
  "error_code r = js_get (js_get (json r) ''error'') ''code''"

definition is_success :: "response \<Rightarrow> bool" where
  "is_success r = (js_get (json r) ''success'' = JBool True)"

definition data_of :: "response \<Rightarrow> string \<Rightarrow> jsval" where
  "data_of r k = js_get (js_get (json r) ''data'') k"

subsection \<open>processPayment\<close>

text \<open>
  The block \<open>if (paymentMethod === 'credit_card') { ... }\<close>, with \<open>method\<close> for
  \<open>paymentMethod\<close>: \<open>Some\<close> reply where the block returns, \<open>None\<close> where control
  leaves the block. A card number that is truthy but not a string has no method
  \<open>replace\<close>: the call throws a TypeError, which the error-handling middleware
  answers.
\<close>

definition check_test_cards :: "config \<Rightarrow> jsval \<Rightarrow> jsval \<Rightarrow> response option" where
  "check_test_cards cfg method cardDetails =
    (if method = JStr ''credit_card'' then
       if \<not> truthy cardDetails \<or> \<not> truthy (js_get cardDetails ''number'') then
         Some (error_response 400 ''invalid_card_details''
                 ''Card details are required for credit card payments'')
       else
         (case js_get cardDetails ''number'' of
            JStr number \<Rightarrow>
              (let cardNumber = strip_whitespace number in
               if cardNumber = decline (testCards cfg) then
                 Some (error_response 402 ''card_declined''
                         ''The card was declined. Please try another payment method.'')
               else if cardNumber = error (testCards cfg) then
                 Some (error_response 500 ''processing_error''
                         ''An error occurred while processing the card. Please try again.'')
               else if cardNumber = cvvError (testCards cfg) then
                 Some (error_response 400 ''invalid_cvv''
                         ''The CVV code is invalid. Please check and try again.'')
               else if cardNumber = expiredCard (testCards cfg) then
                 Some (error_response 400 ''expired_card''
                         ''The card has expired. Please use a different card.'')
               else if cardNumber = insufficientFunds (testCards cfg) then
                 Some (error_response 402 ''insufficient_funds''
                         ''The card has insufficient funds. Please use a different card.'')
               else if cardNumber = invalidCard (testCards cfg) then
                 Some (error_response 400 ''invalid_card''
                         ''The card number is invalid. Please check and try again.'')
               else None)
          | _ \<Rightarrow> Some server_error)
     else None)"

text \<open>
  \<open>processPayment(req, res)\<close> with \<open>body = req.body\<close>. The draw \<open>r_err\<close> is the
  \<open>Math.random()\<close> of the error roll and \<open>r_dec\<close> the one of the decline roll.
  Destructuring a body that is \<open>undefined\<close> or \<open>null\<close> throws in the first statement
  of the handler: the error-handling middleware answers, and nothing is stored.
\<close>

definition processPayment ::
  "config \<Rightarrow> rat \<Rightarrow> rat \<Rightarrow> string \<Rightarrow> string \<Rightarrow> jsval \<Rightarrow> transactions
     \<Rightarrow> response \<times> transactions" where
  "processPayment cfg r_err r_dec uuid now body txs =
    (if nullish body then (server_error, txs) else
     let paymentMethod = js_get body ''paymentMethod'';
         amount = js_get body ''amount'';
         currency = js_get body ''currency'';
         cardDetails = js_get body ''cardDetails'';
         billingInfo = js_get body ''billingInfo''
     in
     if \<not> truthy paymentMethod \<or> \<not> truthy amount \<or> \<not> truthy currency then
       (error_response 400 ''invalid_request''
          ''Missing required fields: paymentMethod, amount, and currency are required'', txs)
     else if paymentMethod \<notin> set (map JStr (availablePaymentMethods cfg)) then
       (error_response 400 ''invalid_payment_method''
          (''Invalid payment method. Supported methods: ''
             @ join '', '' (availablePaymentMethods cfg)), txs)
     else if r_err < errorRate cfg then
       (error_response 500 ''processing_error''
          ''An error occurred while processing the payment. Please try again.'', txs)
     else
       (case check_test_cards cfg paymentMethod cardDetails of
          Some reply \<Rightarrow> (reply, txs)
        | None \<Rightarrow>
            if r_dec < declineRate cfg
               \<and> js_get cardDetails ''number'' \<noteq> JStr (success (testCards cfg)) then
              (error_response 402 ''payment_declined''
                 ''The payment was declined. Please try another payment method.'', txs)
            else
              (let transaction = \<lparr>
                     txn_id = uuid,
                     paymentMethod = paymentMethod,
                     amount = amount,
                     currency = currency,
                     status = ''succeeded'',
                     createdAt = now,
                     metadata = js_or (js_get body ''metadata'') (JObj []),
                     billingInfo = js_or billingInfo (JObj []),
                     refundedAt = JUndefined,
                     refundAmount = JUndefined,
                     refundReason = JUndefined \<rparr>
               in
               (\<lparr> http_status = 201,
                   json = JObj [(''success'', JBool True),
                     (''data'', JObj [
                        (''transactionId'', JStr (txn_id transaction)),
                        (''status'', JStr (status transaction)),
                        (''amount'', amount),
                        (''currency'', currency),
                        (''createdAt'', JStr (createdAt transaction))])] \<rparr>,
                txs(txn_id transaction \<mapsto> transaction)))))"

subsection \<open>getPayment\<close>

definition transaction_not_found :: response where
  "transaction_not_found = error_response 404 ''transaction_not_found'' ''Transaction not found''"

definition getPayment :: "string \<Rightarrow> transactions \<Rightarrow> response" where
  "getPayment transactionId txs =
    (case txs transactionId of
       None \<Rightarrow> transaction_not_found
     | Some transaction \<Rightarrow>
         \<lparr> http_status = 200,
           json = JObj [(''success'', JBool True),
             (''data'', JObj [
                (''transactionId'', JStr (txn_id transaction)),
                (''paymentMethod'', paymentMethod transaction),
                (''amount'', amount transaction),
                (''currency'', currency transaction),
                (''status'', JStr (status transaction)),
                (''createdAt'', JStr (createdAt transaction)),
                (''metadata'', metadata transaction)])] \<rparr>)"

subsection \<open>refundPayment\<close>

text \<open>
  \<open>refundPayment(req, res)\<close> with \<open>transactionId = req.params.id\<close> and
  \<open>body = req.body\<close>. The handler changes the stored object in place and stores it
  again under the same key. It sets \<open>status\<close> and \<open>refundedAt\<close> before it reads
  \<open>req.body.amount\<close>: for a body that is \<open>undefined\<close> or \<open>null\<close> that read throws,
  the error-handling middleware answers, and the stored object keeps the two
  properties already set.
\<close>

definition refundPayment ::
  "config \<Rightarrow> rat \<Rightarrow> string \<Rightarrow> string \<Rightarrow> jsval \<Rightarrow> transactions \<Rightarrow> response \<times> transactions" where
  "refundPayment cfg r_err now transactionId body txs =
    (case txs transactionId of
       None \<Rightarrow> (transaction_not_found, txs)
     | Some t \<Rightarrow>
         if status t = ''refunded'' then
           (error_response 400 ''already_refunded''
              ''This transaction has already been refunded'', txs)
         else if r_err < errorRate cfg then
           (error_response 500 ''refund_processing_error''
              ''An error occurred while processing the refund. Please try again.'', txs)
         else if nullish body then
           (server_error,
            txs(transactionId \<mapsto> t \<lparr> status := ''refunded'', refundedAt := JStr now \<rparr>))
         else
           (let transaction = t \<lparr>
                  status := ''refunded'',
                  refundedAt := JStr now,
                  refundAmount := js_or (js_get body ''amount'') (amount t),
                  refundReason := js_or (js_get body ''reason'') (JStr ''customer_request'') \<rparr>
            in
            (\<lparr> http_status = 200,
                json = JObj [(''success'', JBool True),
                  (''data'', JObj [
                     (''transactionId'', JStr (txn_id transaction)),
                     (''status'', JStr ''refunded''),
                     (''refundAmount'', refundAmount transaction),
                     (''refundedAt'', refundedAt transaction),
                     (''reason'', refundReason transaction)])] \<rparr>,
             txs(transactionId \<mapsto> transaction))))"

subsection \<open>resetTransactions\<close>

definition resetTransactions :: "transactions \<Rightarrow> transactions" where
  "resetTransactions txs = Map.empty"

subsection \<open>Notions used to state the properties\<close>

text \<open>The first test of \<open>processPayment\<close> lets the request through.\<close>

definition required_truthy :: "jsval \<Rightarrow> bool" where
  "required_truthy body =
     (truthy (js_get body ''paymentMethod'') \<and> truthy (js_get body ''amount'')
      \<and> truthy (js_get body ''currency''))"

text \<open>The transaction that \<open>processPayment\<close> builds and the reply it sends with it.\<close>

definition created :: "string \<Rightarrow> string \<Rightarrow> jsval \<Rightarrow> transaction" where
  "created uuid now body = \<lparr>
     txn_id = uuid,
     paymentMethod = js_get body ''paymentMethod'',
     amount = js_get body ''amount'',
     currency = js_get body ''currency'',
     status = ''succeeded'',
     createdAt = now,
     metadata = js_or (js_get body ''metadata'') (JObj []),
     billingInfo = js_or (js_get body ''billingInfo'') (JObj []),
     refundedAt = JUndefined,
     refundAmount = JUndefined,
     refundReason = JUndefined \<rparr>"

definition payment_created :: "string \<Rightarrow> string \<Rightarrow> jsval \<Rightarrow> response" where
  "payment_created uuid now body = \<lparr>
     http_status = 201,
     json = JObj [(''success'', JBool True),
       (''data'', JObj [
          (''transactionId'', JStr uuid),
          (''status'', JStr ''succeeded''),
          (''amount'', js_get body ''amount''),
          (''currency'', js_get body ''currency''),
          (''createdAt'', JStr now)])] \<rparr>"

text \<open>
  One call of the service with what it reads from its environment, and the
  transaction map it leaves behind.
\<close>

datatype call =
    ProcessPayment rat rat string string jsval
  | GetPayment string
  | RefundPayment rat string string jsval
  | ResetTransactions

fun after :: "config \<Rightarrow> call \<Rightarrow> transactions \<Rightarrow> transactions" where
  "after cfg (ProcessPayment r_err r_dec uuid now body) txs =
     snd (processPayment cfg r_err r_dec uuid now body txs)"
| "after cfg (GetPayment tid) txs = txs"
| "after cfg (RefundPayment r_err now tid body) txs = snd (refundPayment cfg r_err now tid body txs)"
| "after cfg ResetTransactions txs = resetTransactions txs"

definition after_all :: "config \<Rightarrow> call list \<Rightarrow> transactions \<Rightarrow> transactions" where
  "after_all cfg cs txs = foldl (\<lambda>s c. after cfg c s) txs cs"

text \<open>\<open>uuidv4()\<close> returns an identifier that is not in use.\<close>

fun fresh_uuid :: "call \<Rightarrow> transactions \<Rightarrow> bool" where
  "fresh_uuid (ProcessPayment r_err r_dec uuid now body) txs = (txs uuid = None)"
| "fresh_uuid c txs = True"

text \<open>A call that neither clears the map nor stores under the key \<open>tid\<close>.\<close>

fun keeps :: "string \<Rightarrow> call \<Rightarrow> bool" where
  "keeps tid (ProcessPayment r_err r_dec uuid now body) = (uuid \<noteq> tid)"
| "keeps tid ResetTransactions = False"
| "keeps tid c = True"

text \<open>Every stored transaction is \<open>succeeded\<close> or \<open>refunded\<close>.\<close>

definition statuses_ok :: "transactions \<Rightarrow> bool" where
  "statuses_ok txs =
     (\<forall>tid t. txs tid = Some t \<longrightarrow> status t = ''succeeded'' \<or> status t = ''refunded'')"

text \<open>
  What a call may do to the entry under one key, given the entry before the call
  (if any) and the entry \<open>t'\<close> after it: a new entry is \<open>succeeded\<close>; an old one keeps
  its status or goes from \<open>succeeded\<close> to \<open>refunded\<close>.
\<close>

definition legal_change :: "transaction option \<Rightarrow> transaction \<Rightarrow> bool" where
  "legal_change before t' =
     (case before of
        None \<Rightarrow> status t' = ''succeeded''
      | Some t \<Rightarrow> status t' = status t \<or> (status t = ''succeeded'' \<and> status t' = ''refunded''))"

text \<open>The transaction that a refund leaves behind and the replies of \<open>refundPayment\<close>.\<close>

definition refunded :: "transaction \<Rightarrow> string \<Rightarrow> jsval \<Rightarrow> transaction" where
  "refunded t now body = t \<lparr>
     status := ''refunded'',
     refundedAt := JStr now,
     refundAmount := js_or (js_get body ''amount'') (amount t),
     refundReason := js_or (js_get body ''reason'') (JStr ''customer_request'') \<rparr>"

text \<open>The stored transaction after a refund that threw at \<open>req.body.amount\<close>.\<close>

definition marked_refunded :: "transaction \<Rightarrow> string \<Rightarrow> transaction" where
  "marked_refunded t now = t \<lparr> status := ''refunded'', refundedAt := JStr now \<rparr>"

definition refund_done :: "transaction \<Rightarrow> response" where
  "refund_done t = \<lparr>
     http_status = 200,
     json = JObj [(''success'', JBool True),
       (''data'', JObj [
          (''transactionId'', JStr (txn_id t)),
          (''status'', JStr ''refunded''),
          (''refundAmount'', refundAmount t),
          (''refundedAt'', refundedAt t),
          (''reason'', refundReason t)])] \<rparr>"

definition already_refunded :: response where
  "already_refunded =
     error_response 400 ''already_refunded'' ''This transaction has already been refunded''"

text \<open>
  The request \<open>{ paymentMethod: 'credit_card', amount, currency, cardDetails: { number } }\<close>,
  and the scenario of the specification: 100 USD on the card 4111111111111111, stored
  under the identifier \<open>tx-1\<close>.
\<close>

definition card_payment :: "jsval \<Rightarrow> jsval \<Rightarrow> string \<Rightarrow> jsval" where
  "card_payment a c number = JObj [
     (''paymentMethod'', JStr ''credit_card''),
     (''amount'', a),
     (''currency'', c),
     (''cardDetails'', JObj [(''number'', JStr number)])]"

definition scenario_request :: jsval where
  "scenario_request = card_payment (JNum 100) (JStr ''USD'') ''4111111111111111''"

definition scenario_transaction :: transaction where
  "scenario_transaction = created ''tx-1'' ''2024-01-01T00:00:00.000Z'' scenario_request"

text \<open>Two more of the replies of \<open>processPayment\<close>.\<close>

definition invalid_request :: response where
  "invalid_request = error_response 400 ''invalid_request''
     ''Missing required fields: paymentMethod, amount, and currency are required''"

definition payment_declined :: response where
  "payment_declined = error_response 402 ''payment_declined''
     ''The payment was declined. Please try another payment method.''"

section \<open>Properties\<close>

subsection \<open>Replies\<close>

lemma error_code_error_response: "error_code (error_response st c m) = JStr c"
  by (simp add: error_code_def error_response_def)

lemma http_status_error_response: "http_status (error_response st c m) = st"
  by (simp add: error_response_def)

lemma not_success_error_response: "\<not> is_success (error_response st c m)"
  by (simp add: is_success_def error_response_def)

lemma not_success_server_error: "\<not> is_success server_error"
  by (simp add: server_error_def not_success_error_response)

lemma error_code_server_error: "error_code server_error = JStr ''server_error''"
  by (simp add: server_error_def error_code_error_response)

lemma http_status_server_error: "http_status server_error = 500"
  by (simp add: server_error_def http_status_error_response)

subsection \<open>Unknown identifiers\<close>

lemma error_code_transaction_not_found:
  "error_code transaction_not_found = JStr ''transaction_not_found''"
  by (simp add: transaction_not_found_def error_code_error_response)

lemma http_status_transaction_not_found: "http_status transaction_not_found = 404"
  by (simp add: transaction_not_found_def http_status_error_response)

lemma getPayment_found:
  assumes "txs tid = Some t"
  shows "is_success (getPayment tid txs)" and "http_status (getPayment tid txs) = 200"
    and "error_code (getPayment tid txs) = JUndefined"
  using assms by (simp_all add: getPayment_def is_success_def error_code_def)

lemma refundPayment_found:
  assumes "txs tid = Some t"
  shows "error_code (fst (refundPayment cfg r now tid body txs)) \<noteq> JStr ''transaction_not_found''"
    and "http_status (fst (refundPayment cfg r now tid body txs)) \<noteq> 404"
proof -
  let ?reply = "fst (refundPayment cfg r now tid body txs)"
  consider (again) "status t = ''refunded''"
    | (roll) "status t \<noteq> ''refunded''" "r < errorRate cfg"
    | (thrown) "status t \<noteq> ''refunded''" "\<not> r < errorRate cfg" "nullish body"
    | (refunds) "status t \<noteq> ''refunded''" "\<not> r < errorRate cfg" "\<not> nullish body"
    by blast
  then have "error_code ?reply \<noteq> JStr ''transaction_not_found'' \<and> http_status ?reply \<noteq> 404"
  proof cases
    case again
    with assms show ?thesis
      by (simp add: refundPayment_def error_code_error_response http_status_error_response)
  next
    case roll
    with assms show ?thesis
      by (simp add: refundPayment_def error_code_error_response http_status_error_response)
  next
    case thrown
    with assms show ?thesis
      by (simp add: refundPayment_def server_error_def error_code_error_response
            http_status_error_response)
  next
    case refunds
    with assms show ?thesis
      by (simp add: refundPayment_def Let_def error_code_def)
  qed
  then show "error_code ?reply \<noteq> JStr ''transaction_not_found''" and "http_status ?reply \<noteq> 404"
    by simp_all
qed

text \<open>
  Claim C6. \<open>getPayment\<close> and \<open>refundPayment\<close> answer with the code
  \<open>transaction_not_found\<close>, and with HTTP 404, exactly when the identifier is not a key
  of the transaction map. After \<open>resetTransactions\<close> both answer so for every
  identifier, whatever the map held before.
\<close>

theorem C6_not_found_iff_absent:
  "(error_code (getPayment tid txs) = JStr ''transaction_not_found'' \<longleftrightarrow> txs tid = None)
   \<and> (http_status (getPayment tid txs) = 404 \<longleftrightarrow> txs tid = None)
   \<and> (error_code (fst (refundPayment cfg r now tid body txs)) = JStr ''transaction_not_found''
        \<longleftrightarrow> txs tid = None)
   \<and> (http_status (fst (refundPayment cfg r now tid body txs)) = 404 \<longleftrightarrow> txs tid = None)
   \<and> getPayment tid (resetTransactions txs) = transaction_not_found
   \<and> refundPayment cfg r now tid body (resetTransactions txs)
        = (transaction_not_found, resetTransactions txs)"
proof (cases "txs tid")
  case None
  then show ?thesis
    by (simp add: getPayment_def refundPayment_def resetTransactions_def
          error_code_transaction_not_found http_status_transaction_not_found)
next
  case (Some t)
  have reset: "getPayment tid (resetTransactions txs) = transaction_not_found"
    "refundPayment cfg r now tid body (resetTransactions txs)
        = (transaction_not_found, resetTransactions txs)"
    by (simp_all add: getPayment_def refundPayment_def resetTransactions_def)
  show ?thesis
    using Some getPayment_found(2,3) [of txs tid t] refundPayment_found [of txs tid t cfg r now body]
      reset
    by simp
qed

subsection \<open>The branches of processPayment\<close>

lemma check_test_cards_replies:
  "(case check_test_cards cfg method cardDetails of
      None \<Rightarrow> True | Some reply \<Rightarrow> \<not> is_success reply)"
  by (simp add: check_test_cards_def Let_def server_error_def not_success_error_response
        split: jsval.split)

lemma check_test_cards_not_success:
  "check_test_cards cfg method cardDetails = Some reply \<Longrightarrow> \<not> is_success reply"
  using check_test_cards_replies [of cfg "method" "cardDetails"] by simp

lemma required_truthy_not_nullish: "required_truthy body \<Longrightarrow> \<not> nullish body"
  by (cases body) (simp_all add: required_truthy_def)

lemma processPayment_throws:
  "nullish body \<Longrightarrow> processPayment cfg r_err r_dec uuid now body txs = (server_error, txs)"
  by (simp add: processPayment_def)

lemma processPayment_invalid_request:
  assumes "\<not> nullish body" and "\<not> required_truthy body"
  shows "processPayment cfg r_err r_dec uuid now body txs =
    (error_response 400 ''invalid_request''
       ''Missing required fields: paymentMethod, amount, and currency are required'', txs)"
  using assms unfolding required_truthy_def processPayment_def Let_def
  by (simp only: de_Morgan_conj if_True if_False)

lemma processPayment_invalid_method:
  assumes "required_truthy body"
    and "js_get body ''paymentMethod'' \<notin> set (map JStr (availablePaymentMethods cfg))"
  shows "processPayment cfg r_err r_dec uuid now body txs =
    (error_response 400 ''invalid_payment_method''
       (''Invalid payment method. Supported methods: ''
          @ join '', '' (availablePaymentMethods cfg)), txs)"
  using assms required_truthy_not_nullish [of body]
  unfolding required_truthy_def processPayment_def Let_def by simp

lemma processPayment_error_roll:
  assumes "required_truthy body"
    and "js_get body ''paymentMethod'' \<in> set (map JStr (availablePaymentMethods cfg))"
    and "r_err < errorRate cfg"
  shows "processPayment cfg r_err r_dec uuid now body txs =
    (error_response 500 ''processing_error''
       ''An error occurred while processing the payment. Please try again.'', txs)"
  using assms required_truthy_not_nullish [of body]
  unfolding required_truthy_def processPayment_def Let_def by simp

lemma processPayment_card_reply:
  assumes "required_truthy body"
    and "js_get body ''paymentMethod'' \<in> set (map JStr (availablePaymentMethods cfg))"
    and "\<not> r_err < errorRate cfg"
    and "check_test_cards cfg (js_get body ''paymentMethod'') (js_get body ''cardDetails'') = Some reply"
  shows "processPayment cfg r_err r_dec uuid now body txs = (reply, txs)"
  using assms required_truthy_not_nullish [of body]
  unfolding required_truthy_def processPayment_def Let_def by simp

lemma processPayment_declined:
  assumes "required_truthy body"
    and "js_get body ''paymentMethod'' \<in> set (map JStr (availablePaymentMethods cfg))"
    and "\<not> r_err < errorRate cfg"
    and "check_test_cards cfg (js_get body ''paymentMethod'') (js_get body ''cardDetails'') = None"
    and "r_dec < declineRate cfg"
    and "js_get (js_get body ''cardDetails'') ''number'' \<noteq> JStr (success (testCards cfg))"
  shows "processPayment cfg r_err r_dec uuid now body txs =
    (error_response 402 ''payment_declined''
       ''The payment was declined. Please try another payment method.'', txs)"
  using assms required_truthy_not_nullish [of body]
  unfolding required_truthy_def processPayment_def Let_def by simp

lemma processPayment_created:
  assumes "required_truthy body"
    and "js_get body ''paymentMethod'' \<in> set (map JStr (availablePaymentMethods cfg))"
    and "\<not> r_err < errorRate cfg"
    and "check_test_cards cfg (js_get body ''paymentMethod'') (js_get body ''cardDetails'') = None"
    and "\<not> r_dec < declineRate cfg
         \<or> js_get (js_get body ''cardDetails'') ''number'' = JStr (success (testCards cfg))"
  shows "processPayment cfg r_err r_dec uuid now body txs =
    (payment_created uuid now body, txs(uuid \<mapsto> created uuid now body))"
  using assms required_truthy_not_nullish [of body]
  unfolding required_truthy_def processPayment_def Let_def created_def payment_created_def
  by auto


lemma is_success_payment_created: "is_success (payment_created uuid now body)"
  by (simp add: is_success_def payment_created_def)

lemma processPayment_outcome:
  "processPayment cfg r_err r_dec uuid now body txs =
     (payment_created uuid now body, txs(uuid \<mapsto> created uuid now body))
   \<or> (\<exists>reply. \<not> is_success reply
         \<and> processPayment cfg r_err r_dec uuid now body txs = (reply, txs))"
proof -
  let ?pm = "js_get body ''paymentMethod''"
  let ?cards = "check_test_cards cfg ?pm (js_get body ''cardDetails'')"
  consider (thrown) "nullish body"
    | (missing) "\<not> nullish body" "\<not> required_truthy body"
    | (unsupported) "required_truthy body" "?pm \<notin> set (map JStr (availablePaymentMethods cfg))"
    | (roll) "required_truthy body" "?pm \<in> set (map JStr (availablePaymentMethods cfg))"
        "r_err < errorRate cfg"
    | (card) reply where "required_truthy body"
        "?pm \<in> set (map JStr (availablePaymentMethods cfg))" "\<not> r_err < errorRate cfg"
        "?cards = Some reply"
    | (declined) "required_truthy body"
        "?pm \<in> set (map JStr (availablePaymentMethods cfg))" "\<not> r_err < errorRate cfg"
        "?cards = None" "r_dec < declineRate cfg"
        "js_get (js_get body ''cardDetails'') ''number'' \<noteq> JStr (success (testCards cfg))"
    | (stored) "required_truthy body"
        "?pm \<in> set (map JStr (availablePaymentMethods cfg))" "\<not> r_err < errorRate cfg"
        "?cards = None"
        "\<not> r_dec < declineRate cfg
         \<or> js_get (js_get body ''cardDetails'') ''number'' = JStr (success (testCards cfg))"
    by (cases ?cards) blast+
  then show ?thesis
  proof cases
    case thrown
    then show ?thesis
      by (simp add: processPayment_throws not_success_server_error)
  next
    case missing
    then show ?thesis
      by (simp add: processPayment_invalid_request not_success_error_response)
  next
    case unsupported
    then show ?thesis
      by (simp add: processPayment_invalid_method not_success_error_response)
  next
    case roll
    then show ?thesis
      by (simp add: processPayment_error_roll not_success_error_response)
  next
    case card
    then show ?thesis
      by (simp add: processPayment_card_reply check_test_cards_not_success)
  next
    case declined
    then show ?thesis
      by (simp add: processPayment_declined not_success_error_response)
  next
    case stored
    then show ?thesis
      by (simp add: processPayment_created)
  qed
qed

subsection \<open>Reading back a payment\<close>

text \<open>
  Claim C4. When \<open>processPayment\<close> succeeds, its reply carries the identifier under
  which the transaction was stored, and \<open>getPayment\<close> with that identifier on the map
  it left behind succeeds (HTTP 200) and returns the amount, the currency and the
  payment method of the request, with status \<open>succeeded\<close>.
\<close>

theorem C4_get_after_payment:
  assumes "processPayment cfg r_err r_dec uuid now body txs = (reply, txs')"
    and "is_success reply"
  shows "data_of reply ''transactionId'' = JStr uuid
    \<and> is_success (getPayment uuid txs')
    \<and> http_status (getPayment uuid txs') = 200
    \<and> data_of (getPayment uuid txs') ''amount'' = js_get body ''amount''
    \<and> data_of (getPayment uuid txs') ''currency'' = js_get body ''currency''
    \<and> data_of (getPayment uuid txs') ''paymentMethod'' = js_get body ''paymentMethod''
    \<and> data_of (getPayment uuid txs') ''status'' = JStr ''succeeded''"
proof -
  from assms processPayment_outcome [of cfg r_err r_dec uuid now body txs]
  have reply: "reply = payment_created uuid now body"
    and txs': "txs' = txs(uuid \<mapsto> created uuid now body)"
    by auto
  have "data_of reply ''transactionId'' = JStr uuid"
    by (simp add: reply payment_created_def data_of_def)
  moreover have "is_success (getPayment uuid txs')" "http_status (getPayment uuid txs') = 200"
    by (simp_all add: txs' getPayment_found)
  moreover have "data_of (getPayment uuid txs') ''amount'' = js_get body ''amount''"
    "data_of (getPayment uuid txs') ''currency'' = js_get body ''currency''"
    "data_of (getPayment uuid txs') ''paymentMethod'' = js_get body ''paymentMethod''"
    "data_of (getPayment uuid txs') ''status'' = JStr ''succeeded''"
    by (simp_all add: txs' getPayment_def created_def data_of_def)
  ultimately show ?thesis by simp
qed


lemma js_get_card_payment:
  "js_get (card_payment a c number) ''paymentMethod'' = JStr ''credit_card''"
  "js_get (card_payment a c number) ''amount'' = a"
  "js_get (card_payment a c number) ''currency'' = c"
  "js_get (card_payment a c number) ''cardDetails'' = JObj [(''number'', JStr number)]"
  "js_get (card_payment a c number) ''billingInfo'' = JUndefined"
  "js_get (card_payment a c number) ''metadata'' = JUndefined"
  by (simp_all add: card_payment_def)

lemma required_truthy_card_payment:
  "required_truthy (card_payment a c number) \<longleftrightarrow> truthy a \<and> truthy c"
  by (simp add: required_truthy_def js_get_card_payment)

lemma strip_whitespace_success: "strip_whitespace ''4111111111111111'' = ''4111111111111111''"
  by (simp add: strip_whitespace_def is_space_def)

lemma check_test_cards_success_card:
  "check_test_cards DEFAULT_CONFIG (JStr ''credit_card'')
     (JObj [(''number'', JStr ''4111111111111111'')]) = None"
  by (simp add: check_test_cards_def strip_whitespace_success DEFAULT_CONFIG_def)

lemma example_payment:
  "processPayment DEFAULT_CONFIG (1 / 2) (1 / 2) ''tx-1'' ''2024-01-01T00:00:00.000Z''
     (card_payment (JNum 100) (JStr ''USD'') ''4111111111111111'') Map.empty
   = (payment_created ''tx-1'' ''2024-01-01T00:00:00.000Z''
        (card_payment (JNum 100) (JStr ''USD'') ''4111111111111111''),
      [''tx-1'' \<mapsto> created ''tx-1'' ''2024-01-01T00:00:00.000Z''
        (card_payment (JNum 100) (JStr ''USD'') ''4111111111111111'')])"
  by (rule processPayment_created)
     (simp_all add: required_truthy_card_payment js_get_card_payment check_test_cards_success_card,
      simp_all add: DEFAULT_CONFIG_def)

theorem C4_get_after_payment_witness:
  "is_success (payment_created ''tx-1'' ''2024-01-01T00:00:00.000Z''
        (card_payment (JNum 100) (JStr ''USD'') ''4111111111111111''))
   \<and> data_of (getPayment ''tx-1''
         [''tx-1'' \<mapsto> created ''tx-1'' ''2024-01-01T00:00:00.000Z''
            (card_payment (JNum 100) (JStr ''USD'') ''4111111111111111'')]) ''amount'' = JNum 100
   \<and> data_of (getPayment ''tx-1''
         [''tx-1'' \<mapsto> created ''tx-1'' ''2024-01-01T00:00:00.000Z''
            (card_payment (JNum 100) (JStr ''USD'') ''4111111111111111'')]) ''currency'' = JStr ''USD''
   \<and> data_of (getPayment ''tx-1''
         [''tx-1'' \<mapsto> created ''tx-1'' ''2024-01-01T00:00:00.000Z''
            (card_payment (JNum 100) (JStr ''USD'') ''4111111111111111'')]) ''paymentMethod''
        = JStr ''credit_card''
   \<and> data_of (getPayment ''tx-1''
         [''tx-1'' \<mapsto> created ''tx-1'' ''2024-01-01T00:00:00.000Z''
            (card_payment (JNum 100) (JStr ''USD'') ''4111111111111111'')]) ''status''
        = JStr ''succeeded''"
  using C4_get_after_payment [OF example_payment is_success_payment_created]
  by (simp add: is_success_payment_created js_get_card_payment)


subsection \<open>The branches of refundPayment\<close>

lemma refundPayment_not_found:
  "txs tid = None \<Longrightarrow> refundPayment cfg r now tid body txs = (transaction_not_found, txs)"
  by (simp add: refundPayment_def)

lemma refundPayment_already_refunded:
  "txs tid = Some t \<Longrightarrow> status t = ''refunded'' \<Longrightarrow>
     refundPayment cfg r now tid body txs = (already_refunded, txs)"
  by (simp add: refundPayment_def already_refunded_def)

lemma refundPayment_error_roll:
  "txs tid = Some t \<Longrightarrow> status t \<noteq> ''refunded'' \<Longrightarrow> r < errorRate cfg \<Longrightarrow>
     refundPayment cfg r now tid body txs =
       (error_response 500 ''refund_processing_error''
          ''An error occurred while processing the refund. Please try again.'', txs)"
  by (simp add: refundPayment_def)

lemma refundPayment_throws:
  "txs tid = Some t \<Longrightarrow> status t \<noteq> ''refunded'' \<Longrightarrow> \<not> r < errorRate cfg \<Longrightarrow>
   nullish body \<Longrightarrow>
     refundPayment cfg r now tid body txs = (server_error, txs(tid \<mapsto> marked_refunded t now))"
  by (simp add: refundPayment_def marked_refunded_def)

lemma refundPayment_refunded:
  "txs tid = Some t \<Longrightarrow> status t \<noteq> ''refunded'' \<Longrightarrow> \<not> r < errorRate cfg \<Longrightarrow>
   \<not> nullish body \<Longrightarrow>
     refundPayment cfg r now tid body txs =
       (refund_done (refunded t now body), txs(tid \<mapsto> refunded t now body))"
  by (simp add: refundPayment_def Let_def refunded_def refund_done_def)

lemma status_marked_refunded: "status (marked_refunded t now) = ''refunded''"
  by (simp add: marked_refunded_def)

lemma status_created: "status (created uuid now body) = ''succeeded''"
  by (simp add: created_def)

lemma status_refunded: "status (refunded t now body) = ''refunded''"
  by (simp add: refunded_def)

lemma is_success_refund_done: "is_success (refund_done t)"
  by (simp add: is_success_def refund_done_def)

lemma http_status_refund_done: "http_status (refund_done t) = 200"
  by (simp add: refund_done_def)

lemma refundPayment_outcome:
  "(\<exists>t. txs tid = Some t \<and> status t \<noteq> ''refunded'' \<and> \<not> r < errorRate cfg
        \<and> \<not> nullish body
        \<and> refundPayment cfg r now tid body txs =
            (refund_done (refunded t now body), txs(tid \<mapsto> refunded t now body)))
   \<or> (\<exists>t. txs tid = Some t \<and> status t \<noteq> ''refunded'' \<and> \<not> r < errorRate cfg
        \<and> nullish body
        \<and> refundPayment cfg r now tid body txs =
            (server_error, txs(tid \<mapsto> marked_refunded t now)))
   \<or> (\<exists>reply. \<not> is_success reply
         \<and> error_code reply \<in> {JStr ''transaction_not_found'', JStr ''already_refunded'',
                                 JStr ''refund_processing_error''}
         \<and> refundPayment cfg r now tid body txs = (reply, txs))"
proof (cases "txs tid")
  case None
  then show ?thesis
    by (simp add: refundPayment_not_found transaction_not_found_def
          not_success_error_response error_code_error_response)
next
  case (Some t)
  consider (again) "status t = ''refunded''"
    | (roll) "status t \<noteq> ''refunded''" "r < errorRate cfg"
    | (thrown) "status t \<noteq> ''refunded''" "\<not> r < errorRate cfg" "nullish body"
    | (refunds) "status t \<noteq> ''refunded''" "\<not> r < errorRate cfg" "\<not> nullish body"
    by blast
  then show ?thesis
  proof cases
    case again
    with Some show ?thesis
      by (simp add: refundPayment_already_refunded already_refunded_def
            not_success_error_response error_code_error_response)
  next
    case roll
    with Some show ?thesis
      by (simp add: refundPayment_error_roll not_success_error_response
            error_code_error_response)
  next
    case thrown
    with Some show ?thesis
      by (simp add: refundPayment_throws)
  next
    case refunds
    with Some show ?thesis
      by (simp add: refundPayment_refunded)
  qed
qed

lemma scenario_transaction_fields:
  "status scenario_transaction = ''succeeded''"
  "amount scenario_transaction = JNum 100"
  "txn_id scenario_transaction = ''tx-1''"
  by (simp_all add: scenario_transaction_def created_def scenario_request_def js_get_card_payment)

text \<open>
  Claim C10. The claim says that every refund that fails leaves the transaction map
  unchanged, and that the map changes on the success path only. A refund answered
  \<open>transaction_not_found\<close>, \<open>already_refunded\<close> or \<open>refund_processing_error\<close> does
  leave the map as it was. Every other reply that is not a success is the
  \<open>server_error\<close> of a refund whose \<open>req.body\<close> is \<open>undefined\<close> or \<open>null\<close>: the
  handler has then set \<open>status\<close> and \<open>refundedAt\<close> on the stored transaction before
  \<open>req.body.amount\<close> threw, so the refund fails and the transaction is \<open>refunded\<close>.
  The instance below is a refund without a body on the transaction of the scenario.
\<close>

theorem C10_refund_failure:
  assumes run: "refundPayment cfg r now tid body txs = (reply, txs')"
    and failed: "\<not> is_success reply"
  shows "(error_code reply \<in> {JStr ''transaction_not_found'', JStr ''already_refunded'',
                              JStr ''refund_processing_error''} \<longrightarrow> txs' = txs)
    \<and> (error_code reply \<notin> {JStr ''transaction_not_found'', JStr ''already_refunded'',
                              JStr ''refund_processing_error''} \<longrightarrow>
          nullish body \<and> reply = server_error
          \<and> (\<exists>t. txs tid = Some t \<and> status t \<noteq> ''refunded''
                \<and> txs' = txs(tid \<mapsto> marked_refunded t now)))"
proof -
  from refundPayment_outcome [of txs tid r cfg body now]
  consider (refunds) t where
      "refundPayment cfg r now tid body txs =
         (refund_done (refunded t now body), txs(tid \<mapsto> refunded t now body))"
    | (thrown) t where "txs tid = Some t" "status t \<noteq> ''refunded''" "nullish body"
        "refundPayment cfg r now tid body txs = (server_error, txs(tid \<mapsto> marked_refunded t now))"
    | (refused) reply0 where
        "error_code reply0 \<in> {JStr ''transaction_not_found'', JStr ''already_refunded'',
                                JStr ''refund_processing_error''}"
        "refundPayment cfg r now tid body txs = (reply0, txs)"
    by blast
  then show ?thesis
  proof cases
    case refunds
    with run have "reply = refund_done (refunded t now body)" by simp
    with failed show ?thesis by (simp add: is_success_refund_done)
  next
    case thrown
    with run have "reply = server_error" "txs' = txs(tid \<mapsto> marked_refunded t now)"
      by simp_all
    with thrown(1-3) show ?thesis
      by (simp add: error_code_server_error)
  next
    case refused
    with run have "reply = reply0" "txs' = txs" by simp_all
    with refused(1) show ?thesis by simp
  qed
qed

theorem C10_refund_failure_witness:
  "refundPayment (DEFAULT_CONFIG \<lparr>errorRate := 0\<rparr>) (1 / 2) ''2024-01-02T00:00:00.000Z''
      ''tx-1'' JUndefined [''tx-1'' \<mapsto> scenario_transaction]
    = (server_error,
       [''tx-1'' \<mapsto> marked_refunded scenario_transaction ''2024-01-02T00:00:00.000Z''])
   \<and> \<not> is_success server_error
   \<and> http_status server_error = 500
   \<and> status scenario_transaction = ''succeeded''
   \<and> status (marked_refunded scenario_transaction ''2024-01-02T00:00:00.000Z'') = ''refunded''"
proof -
  let ?cfg = "DEFAULT_CONFIG \<lparr>errorRate := 0\<rparr>"
  let ?txs = "[''tx-1'' \<mapsto> scenario_transaction]"
  let ?t' = "marked_refunded scenario_transaction ''2024-01-02T00:00:00.000Z''"
  have run: "refundPayment ?cfg (1 / 2) ''2024-01-02T00:00:00.000Z'' ''tx-1'' JUndefined ?txs
      = (server_error, ?txs(''tx-1'' \<mapsto> ?t'))"
    by (rule refundPayment_throws) (simp_all add: scenario_transaction_fields)
  from C10_refund_failure [OF run not_success_server_error]
  have "\<exists>t. ?txs ''tx-1'' = Some t \<and> status t \<noteq> ''refunded''
      \<and> ?txs(''tx-1'' \<mapsto> ?t') = ?txs(''tx-1'' \<mapsto> marked_refunded t ''2024-01-02T00:00:00.000Z'')"
    by (simp add: error_code_server_error)
  with run show ?thesis
    by (simp add: not_success_server_error http_status_server_error
          scenario_transaction_fields status_marked_refunded)
qed

subsection \<open>The statuses of stored transactions\<close>

lemma after_ProcessPayment:
  "after cfg (ProcessPayment r_err r_dec uuid now body) txs = txs
   \<or> (is_success (fst (processPayment cfg r_err r_dec uuid now body txs))
       \<and> after cfg (ProcessPayment r_err r_dec uuid now body) txs
           = txs(uuid \<mapsto> created uuid now body))"
  using processPayment_outcome [of cfg r_err r_dec uuid now body txs]
  by (auto simp: is_success_payment_created)

lemma after_RefundPayment:
  "after cfg (RefundPayment r now tid body) txs = txs
   \<or> (\<exists>t t'. txs tid = Some t \<and> status t \<noteq> ''refunded'' \<and> status t' = ''refunded''
         \<and> after cfg (RefundPayment r now tid body) txs = txs(tid \<mapsto> t'))"
proof -
  from refundPayment_outcome [of txs tid r cfg body now]
  consider (refunds) t where "txs tid = Some t" "status t \<noteq> ''refunded''"
      "refundPayment cfg r now tid body txs =
         (refund_done (refunded t now body), txs(tid \<mapsto> refunded t now body))"
    | (thrown) t where "txs tid = Some t" "status t \<noteq> ''refunded''"
        "refundPayment cfg r now tid body txs = (server_error, txs(tid \<mapsto> marked_refunded t now))"
    | (refused) reply where "refundPayment cfg r now tid body txs = (reply, txs)"
    by blast
  then show ?thesis
  proof cases
    case refunds
    then show ?thesis using status_refunded [of t now body] by auto
  next
    case thrown
    then show ?thesis using status_marked_refunded [of t now] by auto
  next
    case refused
    then show ?thesis by simp
  qed
qed

lemma statuses_ok_upd:
  assumes "statuses_ok txs" and "status t = ''succeeded'' \<or> status t = ''refunded''"
  shows "statuses_ok (txs(k \<mapsto> t))"
  unfolding statuses_ok_def
proof (intro allI impI)
  fix tid t'
  assume *: "(txs(k \<mapsto> t)) tid = Some t'"
  show "status t' = ''succeeded'' \<or> status t' = ''refunded''"
  proof (cases "tid = k")
    case True
    with * have "t' = t" by simp
    with assms(2) show ?thesis by blast
  next
    case False
    with * have "txs tid = Some t'" by simp
    with assms(1) show ?thesis unfolding statuses_ok_def by blast
  qed
qed

lemma after_statuses_ok:
  assumes "statuses_ok txs"
  shows "statuses_ok (after cfg c txs)"
proof (cases c)
  case (ProcessPayment r_err r_dec uuid now body)
  from after_ProcessPayment [of cfg r_err r_dec uuid now body txs]
  have "after cfg c txs = txs \<or> after cfg c txs = txs(uuid \<mapsto> created uuid now body)"
    using ProcessPayment by auto
  with assms show ?thesis
    using statuses_ok_upd [OF assms, of "created uuid now body" uuid]
    by (auto simp: status_created)
next
  case (GetPayment tid)
  with assms show ?thesis by simp
next
  case (RefundPayment r now tid body)
  from after_RefundPayment [of cfg r now tid body txs]
  consider (same) "after cfg c txs = txs"
    | (marked) t' where "status t' = ''refunded''" "after cfg c txs = txs(tid \<mapsto> t')"
    using RefundPayment by auto
  then show ?thesis
  proof cases
    case same
    with assms show ?thesis by simp
  next
    case marked
    with statuses_ok_upd [OF assms, of t' tid] show ?thesis by simp
  qed
next
  case ResetTransactions
  then show ?thesis by (simp add: statuses_ok_def resetTransactions_def)
qed

lemma legal_change_same: "legal_change (Some t) t"
  by (simp add: legal_change_def)

lemma legal_change_new: "status t' = ''succeeded'' \<Longrightarrow> legal_change None t'"
  by (simp add: legal_change_def)

lemma legal_change_refund:
  "status t = ''succeeded'' \<Longrightarrow> status t' = ''refunded'' \<Longrightarrow> legal_change (Some t) t'"
  by (simp add: legal_change_def)

lemma after_legal_change:
  assumes ok: "statuses_ok txs" and fresh: "fresh_uuid c txs"
    and t': "after cfg c txs tid = Some t'"
  shows "legal_change (txs tid) t'"
proof (cases c)
  case (ProcessPayment r_err r_dec uuid now body)
  from after_ProcessPayment [of cfg r_err r_dec uuid now body txs]
  consider (same) "after cfg c txs = txs"
    | (stored) "after cfg c txs = txs(uuid \<mapsto> created uuid now body)"
    using ProcessPayment by auto
  then show ?thesis
  proof cases
    case same
    with t' show ?thesis by (simp add: legal_change_same)
  next
    case stored
    show ?thesis
    proof (cases "tid = uuid")
      case True
      with stored t' fresh ProcessPayment show ?thesis
        by (auto simp: legal_change_new status_created)
    next
      case False
      with stored t' show ?thesis by (simp add: legal_change_same)
    qed
  qed
next
  case (GetPayment tid0)
  with t' show ?thesis by (simp add: legal_change_same)
next
  case (RefundPayment r now tid0 body)
  from after_RefundPayment [of cfg r now tid0 body txs]
  consider (same) "after cfg c txs = txs"
    | (refunds) t t0 where "txs tid0 = Some t" "status t \<noteq> ''refunded''"
        "status t0 = ''refunded''" "after cfg c txs = txs(tid0 \<mapsto> t0)"
    using RefundPayment by auto
  then show ?thesis
  proof cases
    case same
    with t' show ?thesis by (simp add: legal_change_same)
  next
    case refunds
    from ok refunds(1,2) have "status t = ''succeeded''"
      unfolding statuses_ok_def by blast
    with refunds t' show ?thesis
      by (cases "tid = tid0") (auto simp: legal_change_same legal_change_refund)
  qed
next
  case ResetTransactions
  with t' show ?thesis by (simp add: resetTransactions_def)
qed

lemma failed_payment_stores_nothing:
  assumes "\<not> is_success (fst (processPayment cfg r_err r_dec uuid now body txs))"
  shows "snd (processPayment cfg r_err r_dec uuid now body txs) = txs"
  using assms processPayment_outcome [of cfg r_err r_dec uuid now body txs]
  by (auto simp: is_success_payment_created)

lemma statuses_ok_after_all: "statuses_ok txs \<Longrightarrow> statuses_ok (after_all cfg cs txs)"
  unfolding after_all_def
  by (induction cs arbitrary: txs) (simp_all add: after_statuses_ok)

lemma statuses_ok_reachable: "statuses_ok (after_all cfg cs Map.empty)"
  by (rule statuses_ok_after_all) (simp add: statuses_ok_def)

text \<open>
  Claim C8. Every call (\<open>processPayment\<close>, \<open>getPayment\<close>, \<open>refundPayment\<close>,
  \<open>resetTransactions\<close>) keeps the invariant that every stored transaction has status
  \<open>succeeded\<close> or \<open>refunded\<close>. With an identifier from \<open>uuidv4()\<close> that is not in use,
  an entry that is new after the call has status \<open>succeeded\<close>, and an entry that was
  there before keeps its status or goes from \<open>succeeded\<close> to \<open>refunded\<close>. A payment
  whose reply is not a success leaves the map unchanged.
\<close>

theorem C8_status_invariant:
  assumes "statuses_ok txs" and "fresh_uuid c txs"
  shows "statuses_ok (after cfg c txs)
    \<and> (\<forall>tid t'. after cfg c txs tid = Some t' \<longrightarrow> legal_change (txs tid) t')
    \<and> (\<forall>r_err r_dec uuid now body.
          c = ProcessPayment r_err r_dec uuid now body
          \<and> \<not> is_success (fst (processPayment cfg r_err r_dec uuid now body txs))
          \<longrightarrow> after cfg c txs = txs)"
  using assms after_statuses_ok [of txs cfg c] after_legal_change [of txs c cfg]
    failed_payment_stores_nothing [of cfg _ _ _ _ _ txs]
  by auto

theorem C8_status_invariant_witness:
  "statuses_ok [''tx-1'' \<mapsto> scenario_transaction]
   \<and> fresh_uuid (RefundPayment (1 / 2) ''2024-01-02T00:00:00.000Z'' ''tx-1'' (JObj []))
        [''tx-1'' \<mapsto> scenario_transaction]
   \<and> statuses_ok (after DEFAULT_CONFIG
        (RefundPayment (1 / 2) ''2024-01-02T00:00:00.000Z'' ''tx-1'' (JObj []))
        [''tx-1'' \<mapsto> scenario_transaction])
   \<and> legal_change (Some scenario_transaction)
        (refunded scenario_transaction ''2024-01-02T00:00:00.000Z'' (JObj []))"
proof -
  let ?txs = "[''tx-1'' \<mapsto> scenario_transaction]"
  let ?c = "RefundPayment (1 / 2) ''2024-01-02T00:00:00.000Z'' ''tx-1'' (JObj [])"
  have ok: "statuses_ok ?txs"
    by (simp add: statuses_ok_def scenario_transaction_fields)
  have fresh: "fresh_uuid ?c ?txs" by simp
  have run: "after DEFAULT_CONFIG ?c ?txs ''tx-1''
      = Some (refunded scenario_transaction ''2024-01-02T00:00:00.000Z'' (JObj []))"
    by (simp add: refundPayment_refunded [of _ _ scenario_transaction]
          scenario_transaction_fields DEFAULT_CONFIG_def)
  note inv = C8_status_invariant [OF ok fresh, of DEFAULT_CONFIG]
  from inv have kept: "statuses_ok (after DEFAULT_CONFIG ?c ?txs)"
    by (rule conjunct1)
  from inv [THEN conjunct2, THEN conjunct1, rule_format, OF run]
  have "legal_change (Some scenario_transaction)
      (refunded scenario_transaction ''2024-01-02T00:00:00.000Z'' (JObj []))"
    by simp
  with ok fresh kept show ?thesis by simp
qed

subsection \<open>Refunding once\<close>

lemma after_keeps_refunded:
  assumes "txs tid = Some t" and "status t = ''refunded''" and "keeps tid c"
  shows "after cfg c txs tid = Some t"
proof (cases c)
  case (ProcessPayment r_err r_dec uuid now body)
  with assms after_ProcessPayment [of cfg r_err r_dec uuid now body txs] show ?thesis
    by auto
next
  case (GetPayment tid0)
  with assms show ?thesis by simp
next
  case (RefundPayment r now tid0 body)
  with assms after_RefundPayment [of cfg r now tid0 body txs] show ?thesis
    by auto
next
  case ResetTransactions
  with assms show ?thesis by simp
qed

lemma after_all_keeps_refunded:
  "txs tid = Some t \<Longrightarrow> status t = ''refunded'' \<Longrightarrow> list_all (keeps tid) cs \<Longrightarrow>
     after_all cfg cs txs tid = Some t"
  unfolding after_all_def
  by (induction cs arbitrary: txs) (simp_all add: after_keeps_refunded)

text \<open>
  Claim C5. The claim says that the first refund of a stored \<open>succeeded\<close> transaction
  succeeds when the error rate is 0, and that every later refund is answered
  \<open>already_refunded\<close> with HTTP 400. With a draw of \<open>Math.random()\<close> (never negative)
  the first refund does succeed with HTTP 200 and stores status \<open>refunded\<close>, the refund
  time, the refund amount and the reason, when \<open>req.body\<close> is an object or an array.
  When \<open>req.body\<close> is \<open>undefined\<close> or \<open>null\<close> the first refund fails with
  \<open>server_error\<close> (HTTP 500), and the transaction is stored with status \<open>refunded\<close>
  and no refund amount. In both cases, whatever calls come in between that neither
  clear the map nor store under the same identifier, every later refund of the
  transaction is answered \<open>already_refunded\<close> with HTTP 400 and changes nothing. The
  instance below is a first refund without a body.
\<close>

theorem C5_refund_once:
  assumes stored: "txs tid = Some t" and status: "status t = ''succeeded''"
    and rate: "errorRate cfg = 0" and draw: "0 \<le> r"
  shows "(\<not> nullish body \<longrightarrow>
            refundPayment cfg r now tid body txs =
              (refund_done (refunded t now body), txs(tid \<mapsto> refunded t now body))
            \<and> is_success (refund_done (refunded t now body))
            \<and> http_status (refund_done (refunded t now body)) = 200
            \<and> status (refunded t now body) = ''refunded''
            \<and> refundedAt (refunded t now body) = JStr now
            \<and> refundAmount (refunded t now body) = js_or (js_get body ''amount'') (amount t)
            \<and> refundReason (refunded t now body)
                 = js_or (js_get body ''reason'') (JStr ''customer_request''))
    \<and> (nullish body \<longrightarrow>
            refundPayment cfg r now tid body txs =
              (server_error, txs(tid \<mapsto> marked_refunded t now))
            \<and> \<not> is_success server_error
            \<and> http_status server_error = 500
            \<and> status (marked_refunded t now) = ''refunded''
            \<and> refundAmount (marked_refunded t now) = refundAmount t)
    \<and> (\<forall>cs r' now' body'. list_all (keeps tid) cs \<longrightarrow>
          refundPayment cfg r' now' tid body'
            (after_all cfg cs (snd (refundPayment cfg r now tid body txs)))
          = (already_refunded, after_all cfg cs (snd (refundPayment cfg r now tid body txs))))
    \<and> error_code already_refunded = JStr ''already_refunded''
    \<and> http_status already_refunded = 400"
proof -
  have roll: "\<not> r < errorRate cfg" and open_: "status t \<noteq> ''refunded''"
    using rate draw status by simp_all
  have done_: "refundPayment cfg r now tid body txs =
      (refund_done (refunded t now body), txs(tid \<mapsto> refunded t now body))"
    if "\<not> nullish body"
    using stored open_ roll that by (rule refundPayment_refunded)
  have thrown: "refundPayment cfg r now tid body txs =
      (server_error, txs(tid \<mapsto> marked_refunded t now))"
    if "nullish body"
    using stored open_ roll that by (rule refundPayment_throws)
  obtain t' where t': "snd (refundPayment cfg r now tid body txs) tid = Some t'"
      "status t' = ''refunded''"
  proof (cases "nullish body")
    case True
    with thrown show ?thesis
      using that [of "marked_refunded t now"] by (simp add: status_marked_refunded)
  next
    case False
    with done_ show ?thesis
      using that [of "refunded t now body"] by (simp add: status_refunded)
  qed
  have later: "refundPayment cfg r' now' tid body'
        (after_all cfg cs (snd (refundPayment cfg r now tid body txs)))
      = (already_refunded, after_all cfg cs (snd (refundPayment cfg r now tid body txs)))"
    if "list_all (keeps tid) cs" for cs r' now' body'
  proof -
    have "after_all cfg cs (snd (refundPayment cfg r now tid body txs)) tid = Some t'"
      using t' that by (simp add: after_all_keeps_refunded)
    then show ?thesis
      using t'(2) by (rule refundPayment_already_refunded)
  qed
  have fields: "refundedAt (refunded t now body) = JStr now"
    "refundAmount (refunded t now body) = js_or (js_get body ''amount'') (amount t)"
    "refundReason (refunded t now body) = js_or (js_get body ''reason'') (JStr ''customer_request'')"
    "refundAmount (marked_refunded t now) = refundAmount t"
    by (simp_all add: refunded_def marked_refunded_def)
  have replies: "error_code already_refunded = JStr ''already_refunded''"
    "http_status already_refunded = 400"
    by (simp_all add: already_refunded_def error_code_error_response http_status_error_response)
  from done_ thrown later fields replies show ?thesis
    by (simp add: is_success_refund_done http_status_refund_done status_refunded
          status_marked_refunded not_success_server_error http_status_server_error)
qed

theorem C5_refund_once_witness:
  "refundPayment (DEFAULT_CONFIG \<lparr>errorRate := 0\<rparr>) (1 / 2) ''2024-01-02T00:00:00.000Z''
      ''tx-1'' JUndefined [''tx-1'' \<mapsto> scenario_transaction]
    = (server_error,
       [''tx-1'' \<mapsto> marked_refunded scenario_transaction ''2024-01-02T00:00:00.000Z''])
   \<and> \<not> is_success server_error
   \<and> http_status server_error = 500
   \<and> status (marked_refunded scenario_transaction ''2024-01-02T00:00:00.000Z'') = ''refunded''
   \<and> refundPayment (DEFAULT_CONFIG \<lparr>errorRate := 0\<rparr>) (1 / 2) ''2024-01-02T00:00:00.000Z''
      ''tx-1'' (JObj []) [''tx-1'' \<mapsto> scenario_transaction]
    = (refund_done (refunded scenario_transaction ''2024-01-02T00:00:00.000Z'' (JObj [])),
       [''tx-1'' \<mapsto> refunded scenario_transaction ''2024-01-02T00:00:00.000Z'' (JObj [])])
   \<and> refundAmount (refunded scenario_transaction ''2024-01-02T00:00:00.000Z'' (JObj []))
        = JNum 100
   \<and> fst (refundPayment (DEFAULT_CONFIG \<lparr>errorRate := 0\<rparr>) (1 / 2)
        ''2024-01-03T00:00:00.000Z'' ''tx-1'' (JObj [])
        (after_all (DEFAULT_CONFIG \<lparr>errorRate := 0\<rparr>) [GetPayment ''tx-1'']
           [''tx-1'' \<mapsto> refunded scenario_transaction ''2024-01-02T00:00:00.000Z'' (JObj [])]))
      = already_refunded"
proof -
  let ?cfg = "DEFAULT_CONFIG \<lparr>errorRate := 0\<rparr>"
  let ?txs = "[''tx-1'' \<mapsto> scenario_transaction]"
  let ?now = "''2024-01-02T00:00:00.000Z''"
  have stored: "?txs ''tx-1'' = Some scenario_transaction" by simp
  have rate: "errorRate ?cfg = 0" by simp
  have draw: "(0::rat) \<le> 1 / 2" by simp
  note once = C5_refund_once [of ?txs "''tx-1''" scenario_transaction ?cfg "1 / 2" _ ?now,
      OF stored scenario_transaction_fields(1) rate draw]
  from once [of JUndefined]
  have thrown: "refundPayment ?cfg (1 / 2) ?now ''tx-1'' JUndefined ?txs
      = (server_error, [''tx-1'' \<mapsto> marked_refunded scenario_transaction ?now])"
    by simp
  from once [of "JObj []"]
  have first: "refundPayment ?cfg (1 / 2) ?now ''tx-1'' (JObj []) ?txs
      = (refund_done (refunded scenario_transaction ?now (JObj [])),
         [''tx-1'' \<mapsto> refunded scenario_transaction ?now (JObj [])])"
    and amount: "refundAmount (refunded scenario_transaction ?now (JObj [])) = JNum 100"
    by (simp_all add: js_or_def scenario_transaction_fields)
  from once [of "JObj []"]
  have "\<forall>cs r' now' body'. list_all (keeps ''tx-1'') cs \<longrightarrow>
          refundPayment ?cfg r' now' ''tx-1'' body'
            (after_all ?cfg cs (snd (refundPayment ?cfg (1 / 2) ?now ''tx-1'' (JObj []) ?txs)))
          = (already_refunded,
             after_all ?cfg cs (snd (refundPayment ?cfg (1 / 2) ?now ''tx-1'' (JObj []) ?txs)))"
    by (elim conjE) assumption
  then have "refundPayment ?cfg (1 / 2) ''2024-01-03T00:00:00.000Z'' ''tx-1'' (JObj [])
            (after_all ?cfg [GetPayment ''tx-1'']
               (snd (refundPayment ?cfg (1 / 2) ?now ''tx-1'' (JObj []) ?txs)))
          = (already_refunded, after_all ?cfg [GetPayment ''tx-1'']
               (snd (refundPayment ?cfg (1 / 2) ?now ''tx-1'' (JObj []) ?txs)))"
    by (elim allE [where x = "[GetPayment ''tx-1'']"] allE [where x = "1 / 2"]
          allE [where x = "''2024-01-03T00:00:00.000Z''"] allE [where x = "JObj []"]) simp
  with thrown first amount show ?thesis
    by (simp add: not_success_server_error http_status_server_error status_marked_refunded)
qed

subsection \<open>The required fields\<close>

lemma check_test_cards_codes:
  "(case check_test_cards cfg pm cardDetails of
      None \<Rightarrow> True
    | Some reply \<Rightarrow> error_code reply \<noteq> JStr ''invalid_request''
        \<and> error_code reply \<noteq> JStr ''payment_declined'')"
  by (simp add: check_test_cards_def Let_def server_error_def error_code_error_response
        split: jsval.split)

lemma error_code_payment_created: "error_code (payment_created uuid now body) = JUndefined"
  by (simp add: error_code_def payment_created_def)

text \<open>
  Claim C7. The claim says that \<open>processPayment\<close> answers \<open>invalid_request\<close> exactly
  when \<open>paymentMethod\<close>, \<open>amount\<close> or \<open>currency\<close> is absent, and that an amount of 0
  passes. The handler tests \<open>!paymentMethod || !amount || !currency\<close>: it answers
  \<open>invalid_request\<close> (HTTP 400, map unchanged) exactly when one of the three values is
  falsy, which an absent value is, and so are \<open>null\<close>, \<open>false\<close>, the number 0 and the
  empty string. That is for a body that is an object or an array; when \<open>req.body\<close>
  itself is \<open>undefined\<close> or \<open>null\<close> the handler throws before the test and the answer
  is \<open>server_error\<close>. The instance below is a request with all three fields present
  and amount 0, which is answered \<open>invalid_request\<close>.
\<close>

theorem C7_invalid_request_iff_falsy:
  "(error_code (fst (processPayment cfg r_err r_dec uuid now body txs)) = JStr ''invalid_request''
      \<longleftrightarrow> \<not> nullish body
          \<and> \<not> (truthy (js_get body ''paymentMethod'') \<and> truthy (js_get body ''amount'')
                 \<and> truthy (js_get body ''currency'')))
   \<and> (error_code (fst (processPayment cfg r_err r_dec uuid now body txs)) = JStr ''invalid_request''
      \<longrightarrow> processPayment cfg r_err r_dec uuid now body txs = (invalid_request, txs))
   \<and> (nullish body
      \<longrightarrow> processPayment cfg r_err r_dec uuid now body txs = (server_error, txs))"
proof -
  let ?pm = "js_get body ''paymentMethod''"
  let ?cards = "check_test_cards cfg ?pm (js_get body ''cardDetails'')"
  let ?reply = "fst (processPayment cfg r_err r_dec uuid now body txs)"
  have falsy: "processPayment cfg r_err r_dec uuid now body txs = (invalid_request, txs)"
    if "\<not> nullish body" "\<not> required_truthy body"
    using that by (simp add: processPayment_invalid_request invalid_request_def)
  have thrown: "processPayment cfg r_err r_dec uuid now body txs = (server_error, txs)"
    if "nullish body"
    using that by (rule processPayment_throws)
  have truthy: "error_code ?reply \<noteq> JStr ''invalid_request''" if ok: "required_truthy body"
  proof -
    consider (unsupported) "?pm \<notin> set (map JStr (availablePaymentMethods cfg))"
      | (roll) "?pm \<in> set (map JStr (availablePaymentMethods cfg))" "r_err < errorRate cfg"
      | (card) reply where "?pm \<in> set (map JStr (availablePaymentMethods cfg))"
          "\<not> r_err < errorRate cfg" "?cards = Some reply"
      | (declined) "?pm \<in> set (map JStr (availablePaymentMethods cfg))"
          "\<not> r_err < errorRate cfg" "?cards = None" "r_dec < declineRate cfg"
          "js_get (js_get body ''cardDetails'') ''number'' \<noteq> JStr (success (testCards cfg))"
      | (stored) "?pm \<in> set (map JStr (availablePaymentMethods cfg))"
          "\<not> r_err < errorRate cfg" "?cards = None"
          "\<not> r_dec < declineRate cfg
           \<or> js_get (js_get body ''cardDetails'') ''number'' = JStr (success (testCards cfg))"
      by (cases ?cards) blast+
    then show ?thesis
    proof cases
      case unsupported
      with ok show ?thesis
        by (simp add: processPayment_invalid_method error_code_error_response)
    next
      case roll
      with ok show ?thesis
        by (simp add: processPayment_error_roll error_code_error_response)
    next
      case card
      with ok check_test_cards_codes [of cfg ?pm "js_get body ''cardDetails''"] show ?thesis
        by (simp add: processPayment_card_reply)
    next
      case declined
      with ok show ?thesis
        by (simp add: processPayment_declined error_code_error_response)
    next
      case stored
      with ok show ?thesis
        by (simp add: processPayment_created error_code_payment_created)
    qed
  qed
  show ?thesis
  proof (cases "required_truthy body")
    case True
    from truthy [OF True] True required_truthy_not_nullish [OF True] show ?thesis
      by (simp add: required_truthy_def)
  next
    case False
    show ?thesis
    proof (cases "nullish body")
      case True
      from thrown [OF True] True show ?thesis
        by (simp add: error_code_server_error)
    next
      case defined: False
      from falsy [OF defined False] False defined show ?thesis
        by (simp add: required_truthy_def invalid_request_def error_code_error_response)
    qed
  qed
qed

theorem C7_invalid_request_iff_falsy_witness:
  "js_get (card_payment (JNum 0) (JStr ''USD'') ''4111111111111111'') ''paymentMethod''
      = JStr ''credit_card''
   \<and> js_get (card_payment (JNum 0) (JStr ''USD'') ''4111111111111111'') ''amount'' = JNum 0
   \<and> js_get (card_payment (JNum 0) (JStr ''USD'') ''4111111111111111'') ''currency'' = JStr ''USD''
   \<and> processPayment DEFAULT_CONFIG (1 / 2) (1 / 2) ''tx-1'' ''2024-01-01T00:00:00.000Z''
        (card_payment (JNum 0) (JStr ''USD'') ''4111111111111111'') Map.empty
      = (invalid_request, Map.empty)
   \<and> http_status invalid_request = 400"
  using C7_invalid_request_iff_falsy [of DEFAULT_CONFIG "1 / 2" "1 / 2" "''tx-1''"
      "''2024-01-01T00:00:00.000Z''" "card_payment (JNum 0) (JStr ''USD'') ''4111111111111111''"
      Map.empty]
  by (simp add: js_get_card_payment invalid_request_def http_status_error_response
        card_payment_def [of "JNum 0"])

subsection \<open>The test cards\<close>

lemma available_method:
  "JStr m \<in> set (map JStr ms) \<longleftrightarrow> m \<in> set ms"
  by auto

lemma declineRate_default: "declineRate DEFAULT_CONFIG = 1 / 10"
  by (simp add: DEFAULT_CONFIG_def)

lemma default_test_cards:
  "success (testCards DEFAULT_CONFIG) = ''4111111111111111''"
  "decline (testCards DEFAULT_CONFIG) = ''4000000000000002''"
  "error (testCards DEFAULT_CONFIG) = ''4000000000000069''"
  "cvvError (testCards DEFAULT_CONFIG) = ''4000000000000127''"
  "expiredCard (testCards DEFAULT_CONFIG) = ''4000000000000069''"
  "insufficientFunds (testCards DEFAULT_CONFIG) = ''4000000000009995''"
  "invalidCard (testCards DEFAULT_CONFIG) = ''1234567890123456''"
  by (simp_all add: DEFAULT_CONFIG_def)

text \<open>The card block with a card number that is a string and not empty.\<close>

lemma check_test_cards_string:
  assumes "js_get cardDetails ''number'' = JStr number" and "number \<noteq> []"
  shows "check_test_cards cfg (JStr ''credit_card'') cardDetails =
    (let cardNumber = strip_whitespace number in
     if cardNumber = decline (testCards cfg) then
       Some (error_response 402 ''card_declined''
               ''The card was declined. Please try another payment method.'')
     else if cardNumber = error (testCards cfg) then
       Some (error_response 500 ''processing_error''
               ''An error occurred while processing the card. Please try again.'')
     else if cardNumber = cvvError (testCards cfg) then
       Some (error_response 400 ''invalid_cvv''
               ''The CVV code is invalid. Please check and try again.'')
     else if cardNumber = expiredCard (testCards cfg) then
       Some (error_response 400 ''expired_card''
               ''The card has expired. Please use a different card.'')
     else if cardNumber = insufficientFunds (testCards cfg) then
       Some (error_response 402 ''insufficient_funds''
               ''The card has insufficient funds. Please use a different card.'')
     else if cardNumber = invalidCard (testCards cfg) then
       Some (error_response 400 ''invalid_card''
               ''The card number is invalid. Please check and try again.'')
     else None)"
proof -
  from assms(1) have "truthy cardDetails" by (cases cardDetails) simp_all
  with assms show ?thesis by (simp add: check_test_cards_def)
qed

lemma strip_whitespace_nonempty: "strip_whitespace number \<noteq> [] \<Longrightarrow> number \<noteq> []"
  by (auto simp: strip_whitespace_def)

lemma check_test_cards_default:
  assumes "testCards cfg = testCards DEFAULT_CONFIG"
    and "js_get cardDetails ''number'' = JStr number"
  shows "strip_whitespace number = ''4000000000000002'' \<Longrightarrow>
      check_test_cards cfg (JStr ''credit_card'') cardDetails =
        Some (error_response 402 ''card_declined''
               ''The card was declined. Please try another payment method.'')"
    and "strip_whitespace number = ''4000000000000069'' \<Longrightarrow>
      check_test_cards cfg (JStr ''credit_card'') cardDetails =
        Some (error_response 500 ''processing_error''
               ''An error occurred while processing the card. Please try again.'')"
    and "strip_whitespace number = ''4000000000000127'' \<Longrightarrow>
      check_test_cards cfg (JStr ''credit_card'') cardDetails =
        Some (error_response 400 ''invalid_cvv''
               ''The CVV code is invalid. Please check and try again.'')"
    and "strip_whitespace number = ''4000000000009995'' \<Longrightarrow>
      check_test_cards cfg (JStr ''credit_card'') cardDetails =
        Some (error_response 402 ''insufficient_funds''
               ''The card has insufficient funds. Please use a different card.'')"
    and "strip_whitespace number = ''1234567890123456'' \<Longrightarrow>
      check_test_cards cfg (JStr ''credit_card'') cardDetails =
        Some (error_response 400 ''invalid_card''
               ''The card number is invalid. Please check and try again.'')"
    and "strip_whitespace number = ''4111111111111111'' \<Longrightarrow>
      check_test_cards cfg (JStr ''credit_card'') cardDetails = None"
  using assms
  by (simp_all add: check_test_cards_string [OF assms(2) strip_whitespace_nonempty]
        default_test_cards)

text \<open>
  Claim C1. With the test cards of \<open>DEFAULT_CONFIG\<close>, the method \<open>credit_card\<close>
  available, error rate 0, and a request whose \<open>paymentMethod\<close> is \<open>credit_card\<close> and
  whose amount and currency are truthy, the reply depends on the card number with its
  whitespace removed only: the decline card gives \<open>card_declined\<close>, the error card
  \<open>processing_error\<close>, the CVV card \<open>invalid_cvv\<close>, the insufficient-funds card
  \<open>insufficient_funds\<close> and the invalid card \<open>invalid_card\<close>, as the claim says. The
  expired card gives \<open>processing_error\<close> and not \<open>expired_card\<close>: \<open>DEFAULT_CONFIG\<close>
  gives \<open>expiredCard\<close> the number of \<open>error\<close>, which is tested first. The instance
  below is the expired card.
\<close>

theorem C1_magic_cards_default:
  assumes cards: "testCards cfg = testCards DEFAULT_CONFIG"
    and available: "''credit_card'' \<in> set (availablePaymentMethods cfg)"
    and rate: "errorRate cfg = 0" and draw: "0 \<le> r_err"
    and pm: "js_get body ''paymentMethod'' = JStr ''credit_card''"
    and amount: "truthy (js_get body ''amount'')"
    and currency: "truthy (js_get body ''currency'')"
    and number: "js_get (js_get body ''cardDetails'') ''number'' = JStr number"
  shows "(strip_whitespace number = decline (testCards cfg) \<longrightarrow>
            processPayment cfg r_err r_dec uuid now body txs =
              (error_response 402 ''card_declined''
                 ''The card was declined. Please try another payment method.'', txs))
    \<and> (strip_whitespace number = error (testCards cfg) \<longrightarrow>
            processPayment cfg r_err r_dec uuid now body txs =
              (error_response 500 ''processing_error''
                 ''An error occurred while processing the card. Please try again.'', txs))
    \<and> (strip_whitespace number = cvvError (testCards cfg) \<longrightarrow>
            processPayment cfg r_err r_dec uuid now body txs =
              (error_response 400 ''invalid_cvv''
                 ''The CVV code is invalid. Please check and try again.'', txs))
    \<and> (strip_whitespace number = expiredCard (testCards cfg) \<longrightarrow>
            processPayment cfg r_err r_dec uuid now body txs =
              (error_response 500 ''processing_error''
                 ''An error occurred while processing the card. Please try again.'', txs))
    \<and> (strip_whitespace number = insufficientFunds (testCards cfg) \<longrightarrow>
            processPayment cfg r_err r_dec uuid now body txs =
              (error_response 402 ''insufficient_funds''
                 ''The card has insufficient funds. Please use a different card.'', txs))
    \<and> (strip_whitespace number = invalidCard (testCards cfg) \<longrightarrow>
            processPayment cfg r_err r_dec uuid now body txs =
              (error_response 400 ''invalid_card''
                 ''The card number is invalid. Please check and try again.'', txs))"
proof -
  have ok: "required_truthy body"
    using pm amount currency by (simp add: required_truthy_def)
  have listed: "js_get body ''paymentMethod'' \<in> set (map JStr (availablePaymentMethods cfg))"
    using pm available by (simp add: available_method)
  have roll: "\<not> r_err < errorRate cfg"
    using rate draw by simp
  have reply: "processPayment cfg r_err r_dec uuid now body txs = (reply, txs)"
    if "check_test_cards cfg (JStr ''credit_card'') (js_get body ''cardDetails'') = Some reply"
    for reply
    using that ok listed roll pm by (simp add: processPayment_card_reply)
  note table = check_test_cards_default [OF cards number]
  show ?thesis
    using reply [OF table(1)] reply [OF table(2)] reply [OF table(3)] reply [OF table(4)]
      reply [OF table(5)]
    by (simp add: cards default_test_cards)
qed

theorem C1_magic_cards_default_witness:
  "expiredCard (testCards DEFAULT_CONFIG) = ''4000000000000069''
   \<and> strip_whitespace ''4000000000000069'' = ''4000000000000069''
   \<and> processPayment (DEFAULT_CONFIG \<lparr>errorRate := 0\<rparr>) (1 / 2) (1 / 2) ''tx-1''
        ''2024-01-01T00:00:00.000Z''
        (card_payment (JNum 100) (JStr ''USD'') ''4000000000000069'') Map.empty
      = (error_response 500 ''processing_error''
           ''An error occurred while processing the card. Please try again.'', Map.empty)"
proof -
  let ?cfg = "DEFAULT_CONFIG \<lparr>errorRate := 0\<rparr>"
  let ?body = "card_payment (JNum 100) (JStr ''USD'') ''4000000000000069''"
  have strip: "strip_whitespace ''4000000000000069'' = ''4000000000000069''"
    by (simp add: strip_whitespace_def is_space_def)
  have cards: "testCards ?cfg = testCards DEFAULT_CONFIG" by simp
  have available: "''credit_card'' \<in> set (availablePaymentMethods ?cfg)"
    by (simp add: DEFAULT_CONFIG_def)
  have rate: "errorRate ?cfg = 0" by simp
  have draw: "(0::rat) \<le> 1 / 2" by simp
  have pm: "js_get ?body ''paymentMethod'' = JStr ''credit_card''"
    and amount: "truthy (js_get ?body ''amount'')"
    and currency: "truthy (js_get ?body ''currency'')"
    and number: "js_get (js_get ?body ''cardDetails'') ''number'' = JStr ''4000000000000069''"
    by (simp_all add: js_get_card_payment)
  from C1_magic_cards_default [of ?cfg "1 / 2" ?body "''4000000000000069''" "1 / 2" "''tx-1''"
      "''2024-01-01T00:00:00.000Z''" Map.empty,
      OF cards available rate draw pm amount currency number]
  show ?thesis
    by (simp add: strip default_test_cards)
qed

lemma processPayment_success_card:
  assumes cards: "testCards cfg = testCards DEFAULT_CONFIG"
    and available: "''credit_card'' \<in> set (availablePaymentMethods cfg)"
    and roll: "\<not> r_err < errorRate cfg"
    and pm: "js_get body ''paymentMethod'' = JStr ''credit_card''"
    and amount: "truthy (js_get body ''amount'')"
    and currency: "truthy (js_get body ''currency'')"
    and number: "js_get (js_get body ''cardDetails'') ''number'' = JStr number"
    and normal: "strip_whitespace number = success (testCards cfg)"
  shows "processPayment cfg r_err r_dec uuid now body txs =
    (if r_dec < declineRate cfg \<and> number \<noteq> success (testCards cfg)
     then (payment_declined, txs)
     else (payment_created uuid now body, txs(uuid \<mapsto> created uuid now body)))"
proof -
  have ok: "required_truthy body"
    using pm amount currency by (simp add: required_truthy_def)
  have listed: "js_get body ''paymentMethod'' \<in> set (map JStr (availablePaymentMethods cfg))"
    using pm available by (simp add: available_method)
  have none: "check_test_cards cfg (js_get body ''paymentMethod'') (js_get body ''cardDetails'')
      = None"
    using check_test_cards_default(6) [OF cards number] normal pm
    by (simp add: cards default_test_cards)
  show ?thesis
  proof (cases "r_dec < declineRate cfg \<and> number \<noteq> success (testCards cfg)")
    case True
    with ok listed roll none number show ?thesis
      by (simp add: processPayment_declined payment_declined_def)
  next
    case False
    then have skip: "\<not> r_dec < declineRate cfg
        \<or> js_get (js_get body ''cardDetails'') ''number'' = JStr (success (testCards cfg))"
      using number by auto
    from False show ?thesis
      unfolding processPayment_created [OF ok listed roll none skip] by (rule if_not_P [symmetric])
  qed
qed

text \<open>
  Claim C2. For a \<open>credit_card\<close> request that passes the error roll and whose card
  number, with its whitespace removed, is the success card, the reply is
  \<open>payment_declined\<close> exactly when the decline roll triggers and the number as it was
  sent differs from the success card: the decline test compares
  \<open>cardDetails?.number\<close>, not the normalised \<open>cardNumber\<close>. So the success card
  written without whitespace is never declined, and the success card written with
  whitespace is declined whenever the roll triggers. The instance below is
  \<open>4111 1111 1111 1111\<close> with the default decline rate and a draw of 0.05.
\<close>

theorem C2_success_card_with_spaces:
  assumes "testCards cfg = testCards DEFAULT_CONFIG"
    and "''credit_card'' \<in> set (availablePaymentMethods cfg)"
    and "\<not> r_err < errorRate cfg"
    and "js_get body ''paymentMethod'' = JStr ''credit_card''"
    and "truthy (js_get body ''amount'')"
    and "truthy (js_get body ''currency'')"
    and "js_get (js_get body ''cardDetails'') ''number'' = JStr number"
    and "strip_whitespace number = success (testCards cfg)"
  shows "(error_code (fst (processPayment cfg r_err r_dec uuid now body txs))
            = JStr ''payment_declined''
          \<longleftrightarrow> r_dec < declineRate cfg \<and> number \<noteq> success (testCards cfg))
    \<and> (r_dec < declineRate cfg \<and> number \<noteq> success (testCards cfg) \<longrightarrow>
          processPayment cfg r_err r_dec uuid now body txs = (payment_declined, txs))"
  unfolding processPayment_success_card [OF assms]
  by (simp add: payment_declined_def error_code_error_response error_code_payment_created)

theorem C2_success_card_with_spaces_witness:
  "strip_whitespace ''4111 1111 1111 1111'' = success (testCards DEFAULT_CONFIG)
   \<and> processPayment DEFAULT_CONFIG (1 / 2) (1 / 20) ''tx-1'' ''2024-01-01T00:00:00.000Z''
        (card_payment (JNum 100) (JStr ''USD'') ''4111 1111 1111 1111'') Map.empty
      = (payment_declined, Map.empty)
   \<and> error_code payment_declined = JStr ''payment_declined''"
proof -
  let ?body = "card_payment (JNum 100) (JStr ''USD'') ''4111 1111 1111 1111''"
  have normal: "strip_whitespace ''4111 1111 1111 1111'' = success (testCards DEFAULT_CONFIG)"
    by (simp add: strip_whitespace_def is_space_def default_test_cards)
  have available: "''credit_card'' \<in> set (availablePaymentMethods DEFAULT_CONFIG)"
    by (simp add: DEFAULT_CONFIG_def)
  have roll: "\<not> (1 / 2 :: rat) < errorRate DEFAULT_CONFIG"
    by (simp add: DEFAULT_CONFIG_def)
  have pm: "js_get ?body ''paymentMethod'' = JStr ''credit_card''"
    and amount: "truthy (js_get ?body ''amount'')"
    and currency: "truthy (js_get ?body ''currency'')"
    and number: "js_get (js_get ?body ''cardDetails'') ''number'' = JStr ''4111 1111 1111 1111''"
    by (simp_all add: js_get_card_payment)
  from C2_success_card_with_spaces [of DEFAULT_CONFIG "1 / 2" ?body "''4111 1111 1111 1111''"
      "1 / 20" "''tx-1''" "''2024-01-01T00:00:00.000Z''" Map.empty,
      OF refl available roll pm amount currency number normal]
  have "processPayment DEFAULT_CONFIG (1 / 2) (1 / 20) ''tx-1'' ''2024-01-01T00:00:00.000Z''
        ?body Map.empty = (payment_declined, Map.empty)"
    by (simp add: default_test_cards declineRate_default)
  with normal show ?thesis
    by (simp add: payment_declined_def error_code_error_response)
qed

subsection \<open>The success card with both rates 0\<close>

lemma payment_created_fields:
  "http_status (payment_created uuid now body) = 201"
  "data_of (payment_created uuid now body) ''transactionId'' = JStr uuid"
  "data_of (payment_created uuid now body) ''status'' = JStr ''succeeded''"
  "data_of (payment_created uuid now body) ''amount'' = js_get body ''amount''"
  "data_of (payment_created uuid now body) ''currency'' = js_get body ''currency''"
  by (simp_all add: payment_created_def data_of_def)

text \<open>
  Claim C3. With the test cards of \<open>DEFAULT_CONFIG\<close>, error rate and decline rate 0,
  method \<open>credit_card\<close> and the success card, \<open>processPayment\<close> answers 201 with the
  reply \<open>payment_created\<close> (success, status \<open>succeeded\<close>, the amount and currency of
  the request) and stores the new transaction under the identifier from \<open>uuidv4()\<close>
  when amount and currency are truthy; when one of them is falsy, as an amount of 0 is,
  it answers \<open>invalid_request\<close> and stores nothing. The instance below has amount 0,
  and amount 100 beside it.
\<close>

theorem C3_success_card_zero_rates:
  assumes cards: "testCards cfg = testCards DEFAULT_CONFIG"
    and available: "''credit_card'' \<in> set (availablePaymentMethods cfg)"
    and rates: "errorRate cfg = 0" "declineRate cfg = 0"
    and draws: "0 \<le> r_err" "0 \<le> r_dec"
    and pm: "js_get body ''paymentMethod'' = JStr ''credit_card''"
    and number: "js_get (js_get body ''cardDetails'') ''number'' = JStr (success (testCards cfg))"
  shows "processPayment cfg r_err r_dec uuid now body txs =
    (if truthy (js_get body ''amount'') \<and> truthy (js_get body ''currency'')
     then (payment_created uuid now body, txs(uuid \<mapsto> created uuid now body))
     else (invalid_request, txs))"
proof (cases "truthy (js_get body ''amount'') \<and> truthy (js_get body ''currency'')")
  case True
  have roll: "\<not> r_err < errorRate cfg"
    using rates draws by simp
  have normal: "strip_whitespace (success (testCards cfg)) = success (testCards cfg)"
    by (simp add: cards default_test_cards strip_whitespace_success)
  from processPayment_success_card [OF cards available roll pm _ _ number normal] True show ?thesis
    by simp
next
  case False
  then have "\<not> required_truthy body"
    by (auto simp: required_truthy_def)
  moreover from pm have "\<not> nullish body"
    by (cases body) simp_all
  ultimately have "processPayment cfg r_err r_dec uuid now body txs = (invalid_request, txs)"
    by (simp add: processPayment_invalid_request invalid_request_def)
  with False show ?thesis
    by (simp only: if_False)
qed


theorem C3_success_card_zero_rates_witness:
  "js_get (card_payment (JNum 0) (JStr ''USD'') ''4111111111111111'') ''amount'' = JNum 0
   \<and> js_get (card_payment (JNum 0) (JStr ''USD'') ''4111111111111111'') ''currency'' = JStr ''USD''
   \<and> processPayment (DEFAULT_CONFIG \<lparr>errorRate := 0, declineRate := 0\<rparr>) (1 / 2) (1 / 2)
        ''tx-1'' ''2024-01-01T00:00:00.000Z''
        (card_payment (JNum 0) (JStr ''USD'') ''4111111111111111'') Map.empty
      = (invalid_request, Map.empty)
   \<and> http_status invalid_request = 400
   \<and> processPayment (DEFAULT_CONFIG \<lparr>errorRate := 0, declineRate := 0\<rparr>) (1 / 2) (1 / 2)
        ''tx-1'' ''2024-01-01T00:00:00.000Z'' scenario_request Map.empty
      = (payment_created ''tx-1'' ''2024-01-01T00:00:00.000Z'' scenario_request,
         [''tx-1'' \<mapsto> scenario_transaction])"
proof -
  let ?cfg = "DEFAULT_CONFIG \<lparr>errorRate := 0, declineRate := 0\<rparr>"
  have cards: "testCards ?cfg = testCards DEFAULT_CONFIG" by simp
  have available: "''credit_card'' \<in> set (availablePaymentMethods ?cfg)"
    by (simp add: DEFAULT_CONFIG_def)
  have rates: "errorRate ?cfg = 0" "declineRate ?cfg = 0" by simp_all
  have draw: "(0::rat) \<le> 1 / 2" by simp
  have pm: "js_get (card_payment a c ''4111111111111111'') ''paymentMethod'' = JStr ''credit_card''"
    and number: "js_get (js_get (card_payment a c ''4111111111111111'') ''cardDetails'') ''number''
      = JStr (success (testCards ?cfg))" for a c
    by (simp_all add: js_get_card_payment default_test_cards)
  note run = C3_success_card_zero_rates [of ?cfg "1 / 2" "1 / 2", OF cards available rates draw draw
      pm number, of "''tx-1''" "''2024-01-01T00:00:00.000Z''" _ _ Map.empty]
  from run [of "JNum 0" "JStr ''USD''"] run [of "JNum 100" "JStr ''USD''"] show ?thesis
    by (simp add: js_get_card_payment invalid_request_def http_status_error_response
          scenario_request_def scenario_transaction_def)
qed

subsection \<open>What a refund records\<close>

lemma refund_done_fields:
  "data_of (refund_done t) ''refundAmount'' = refundAmount t"
  "data_of (refund_done t) ''reason'' = refundReason t"
  "data_of (refund_done t) ''status'' = JStr ''refunded''"
  by (simp_all add: refund_done_def data_of_def)

text \<open>
  Claim C9. A successful refund records \<open>req.body.amount || transaction.amount\<close> as
  \<open>refundAmount\<close> and \<open>req.body.reason || 'customer_request'\<close> as \<open>refundReason\<close>, and
  returns both: the amount of the request when it is truthy (also when it exceeds the
  amount of the transaction), the amount of the transaction otherwise; the reason of
  the request when it is truthy, \<open>customer_request\<close> otherwise. A refund amount of 0
  that the caller supplies is falsy, so the full amount is recorded in its place: the
  instance below refunds 0 on a transaction of 100 and records 100.
\<close>

theorem C9_refund_amount_recorded:
  assumes run: "refundPayment cfg r now tid body txs = (reply, txs')"
    and succeeded: "is_success reply"
  shows "\<exists>t. txs tid = Some t
    \<and> txs' = txs(tid \<mapsto> refunded t now body)
    \<and> refundAmount (refunded t now body)
         = (if truthy (js_get body ''amount'') then js_get body ''amount'' else amount t)
    \<and> refundReason (refunded t now body)
         = (if truthy (js_get body ''reason'') then js_get body ''reason''
            else JStr ''customer_request'')
    \<and> data_of reply ''refundAmount'' = refundAmount (refunded t now body)
    \<and> data_of reply ''reason'' = refundReason (refunded t now body)"
proof -
  from refundPayment_outcome [of txs tid r cfg body now]
  consider (refunds) t where "txs tid = Some t"
      "refundPayment cfg r now tid body txs =
         (refund_done (refunded t now body), txs(tid \<mapsto> refunded t now body))"
    | (failed) reply0 txs0 where "\<not> is_success reply0"
        "refundPayment cfg r now tid body txs = (reply0, txs0)"
    using not_success_server_error by blast
  then obtain t where t: "txs tid = Some t"
    and reply: "reply = refund_done (refunded t now body)"
    and txs': "txs' = txs(tid \<mapsto> refunded t now body)"
  proof cases
    case refunds
    with run that show ?thesis by simp
  next
    case failed
    with run succeeded show ?thesis by simp
  qed
  have "refundAmount (refunded t now body)
         = (if truthy (js_get body ''amount'') then js_get body ''amount'' else amount t)"
    "refundReason (refunded t now body)
         = (if truthy (js_get body ''reason'') then js_get body ''reason''
            else JStr ''customer_request'')"
    by (simp_all add: refunded_def js_or_def)
  with t reply txs' show ?thesis
    by (simp add: refund_done_fields)
qed

theorem C9_refund_amount_recorded_witness:
  "js_get (JObj [(''amount'', JNum 0)]) ''amount'' = JNum 0
   \<and> amount scenario_transaction = JNum 100
   \<and> refundPayment (DEFAULT_CONFIG \<lparr>errorRate := 0\<rparr>) (1 / 2) ''2024-01-02T00:00:00.000Z''
        ''tx-1'' (JObj [(''amount'', JNum 0)]) [''tx-1'' \<mapsto> scenario_transaction]
      = (refund_done (refunded scenario_transaction ''2024-01-02T00:00:00.000Z''
                        (JObj [(''amount'', JNum 0)])),
         [''tx-1'' \<mapsto> refunded scenario_transaction ''2024-01-02T00:00:00.000Z''
                        (JObj [(''amount'', JNum 0)])])
   \<and> refundAmount (refunded scenario_transaction ''2024-01-02T00:00:00.000Z''
                        (JObj [(''amount'', JNum 0)])) = JNum 100
   \<and> data_of (refund_done (refunded scenario_transaction ''2024-01-02T00:00:00.000Z''
                        (JObj [(''amount'', JNum 0)]))) ''refundAmount'' = JNum 100"
proof -
  let ?cfg = "DEFAULT_CONFIG \<lparr>errorRate := 0\<rparr>"
  let ?body = "JObj [(''amount'', JNum 0)]"
  let ?txs = "[''tx-1'' \<mapsto> scenario_transaction]"
  let ?t' = "refunded scenario_transaction ''2024-01-02T00:00:00.000Z'' ?body"
  have run: "refundPayment ?cfg (1 / 2) ''2024-01-02T00:00:00.000Z'' ''tx-1'' ?body ?txs
      = (refund_done ?t', ?txs(''tx-1'' \<mapsto> ?t'))"
    by (rule refundPayment_refunded) (simp_all add: scenario_transaction_fields)
  from C9_refund_amount_recorded [OF run is_success_refund_done]
  have "refundAmount ?t' = JNum 100" "data_of (refund_done ?t') ''refundAmount'' = JNum 100"
    by (simp_all add: scenario_transaction_fields)
  with run show ?thesis
    by (simp add: scenario_transaction_fields)
qed

end
